theory Spec2Isabelle
  imports Main
begin

section \<open>Values and collaborators of the controller\<close>

text \<open>
  The controller of \<^verbatim>\<open>src/controller/controller.ts\<close> is a class whose handlers read and
  write a database of devices and groups, issue commands to an adapter, arm timers and
  emit events. The embedding threads one record, \<open>controller\<close>, through every handler:
  the database content, the timers of the runtime, the commands issued to the adapter and
  the events emitted so far. Debug output (\<^verbatim>\<open>debug.log\<close>, \<^verbatim>\<open>debug.error\<close>) is not part
  of the state.
\<close>

subsection \<open>JavaScript values and truthiness\<close>

text \<open>
  \<^verbatim>\<open>KeyValue\<close> is \<^verbatim>\<open>{[s: string]: any}\<close>: attribute values are untyped, and the
  controller tests them with JavaScript truthiness (\<^verbatim>\<open>data.modelId && ...\<close>).
\<close>

datatype jsval = JUndefined | JNull | JBool bool | JNum int | JStr string

fun truthy :: "jsval \<Rightarrow> bool" where
  "truthy JUndefined = False"
| "truthy JNull = False"
| "truthy (JBool b) = b"
| "truthy (JNum n) = (n \<noteq> 0)"
| "truthy (JStr s) = (s \<noteq> [])"

type_synonym KeyValue = "string \<rightharpoonup> jsval"

text \<open>Reading a property that the object does not have yields \<^verbatim>\<open>undefined\<close>.\<close>

definition property :: "KeyValue \<Rightarrow> string \<Rightarrow> jsval" where
  "property data k = (case data k of None \<Rightarrow> JUndefined | Some v \<Rightarrow> v)"

subsection \<open>Devices and groups\<close>

text \<open>
  Modelled from the spec: the classes \<^verbatim>\<open>Device\<close> and \<^verbatim>\<open>Group\<close> of \<^verbatim>\<open>./model\<close> are not
  part of the sources. A device has a network address, a hardware address, an optional
  manufacturer id, an optional model id, an interview status and an ordered set of
  endpoints; \<open>interviewing\<close> is the transient interview-session marker that exists only
  while an interview is running. The controller reads the fields \<^verbatim>\<open>networkAddress\<close>,
  \<^verbatim>\<open>interviewed\<close>, \<^verbatim>\<open>ieeeAddr\<close> and \<^verbatim>\<open>modelID\<close> through \<^verbatim>\<open>device.get\<close>. An endpoint is
  identified by its small integer id within its device.
\<close>

record device =
  type :: "string option"
  ieeeAddr :: string
  networkAddress :: nat
  manufacturerID :: "nat option"
  modelID :: jsval
  interviewed :: bool
  interviewing :: bool
  endpoints :: "nat list"

record group =
  groupID :: nat
  members :: "(string \<times> nat) list"

subsection \<open>Adapter commands, events, timers\<close>

datatype adapter_call =
    AdapterStart
  | AdapterStop
  | GetCoordinator
  | PermitJoin nat
  | DefaultResponse nat nat nat nat nat
  | GroupCommand nat string string

text \<open>
  \<open>DefaultResponse nwk ep cmd status cluster\<close> is the call
  \<^verbatim>\<open>endpoint.defaultResponse(cmd, status, cluster)\<close> on endpoint \<open>ep\<close> of the device with
  network address \<open>nwk\<close>; \<open>GroupCommand g cluster cmd\<close> is
  \<^verbatim>\<open>group.command(cluster, cmd, {})\<close> on the group with id \<open>g\<close>.
\<close>

datatype interview_status = started | successful | failed | alreadyInProgress

datatype MessagePayloadType = attributeReport | readResponse | otherType string

record MessagePayload =
  msg_type :: MessagePayloadType
  msg_device :: device
  msg_endpoint :: "nat option"
  msg_data :: KeyValue
  msg_linkquality :: nat
  msg_groupID :: "nat option"

datatype event =
    deviceJoined device
  | deviceInterview interview_status device
  | deviceAnnounce "device option"
  | adapterDisconnected
  | message MessagePayload

text \<open>The two callbacks that the controller hands to the runtime's timers.\<close>

datatype task = PermitJoinRenew | StartupGroupOff

text \<open>
  An operation that can throw returns the error, if there is one, beside the state: what
  was done before the throw stays done.
\<close>

datatype error = TypeError | SendError | AdapterError

text \<open>
  What the controller does to the outside, in the order in which it does it: an event
  published to its subscribers, or a command issued to the adapter.
\<close>

datatype effect = Emitted event | Called adapter_call

record controller =
  devices :: "device list"
  groups :: "group list"
  permitJoinTimer :: "nat option"
  intervals :: "(nat \<times> nat \<times> task) list"
  timeouts :: "(nat \<times> task) list"
  nextTimer :: nat
  effects :: "effect list"

text \<open>
  \<open>intervals\<close> are the active \<^verbatim>\<open>setInterval\<close> timers (handle, period in milliseconds,
  callback), \<open>timeouts\<close> the pending \<^verbatim>\<open>setTimeout\<close> tasks (delay in milliseconds,
  callback), \<open>effects\<close> the events published and the commands issued to the adapter, in
  order. A freshly constructed controller has no timer field set.
\<close>

definition Controller_new :: controller where
  "Controller_new =
     \<lparr>devices = [], groups = [], permitJoinTimer = None, intervals = [], timeouts = [],
      nextTimer = 0, effects = []\<rparr>"

definition emit :: "event \<Rightarrow> controller \<Rightarrow> controller" where
  "emit e s = s\<lparr>effects := effects s @ [Emitted e]\<rparr>"

definition adapter_call :: "adapter_call \<Rightarrow> controller \<Rightarrow> controller" where
  "adapter_call c s = s\<lparr>effects := effects s @ [Called c]\<rparr>"

text \<open>The events published so far, and the commands issued to the adapter so far.\<close>

fun events_of :: "effect list \<Rightarrow> event list" where
  "events_of [] = []"
| "events_of (Emitted e # xs) = e # events_of xs"
| "events_of (Called c # xs) = events_of xs"

fun calls_of :: "effect list \<Rightarrow> adapter_call list" where
  "calls_of [] = []"
| "calls_of (Emitted e # xs) = calls_of xs"
| "calls_of (Called c # xs) = c # calls_of xs"

definition emitted :: "controller \<Rightarrow> event list" where
  "emitted s = events_of (effects s)"

definition adapterCalls :: "controller \<Rightarrow> adapter_call list" where
  "adapterCalls s = calls_of (effects s)"

definition setInterval :: "task \<Rightarrow> nat \<Rightarrow> controller \<Rightarrow> nat \<times> controller" where
  "setInterval t ms s =
     (nextTimer s,
      s\<lparr>intervals := intervals s @ [(nextTimer s, ms, t)], nextTimer := Suc (nextTimer s)\<rparr>)"

definition clearInterval :: "nat \<Rightarrow> controller \<Rightarrow> controller" where
  "clearInterval h s = s\<lparr>intervals := filter (\<lambda>(h', _). h' \<noteq> h) (intervals s)\<rparr>"

definition setTimeout :: "task \<Rightarrow> nat \<Rightarrow> controller \<Rightarrow> controller" where
  "setTimeout t ms s = s\<lparr>timeouts := timeouts s @ [(ms, t)]\<rparr>"

section \<open>Join admission: permitJoin and getPermitJoin\<close>

text \<open>
  \<^verbatim>\<open>permitJoin\<close> (lines 97 to 118) is an async function with one suspension point, the
  \<^verbatim>\<open>await\<close> of line 100. \<open>permitJoin_begin\<close> is the call up to that point: the test of
  \<^verbatim>\<open>permitJoinTimer\<close> (line 98) and the adapter command; its first component says
  whether the call is now suspended at line 100. In the other two branches the call
  finishes at once: \<^verbatim>\<open>adapter.permitJoin(0)\<close> of line 111 is not awaited, so its outcome
  does not reach the function. \<open>permitJoin_resume\<close> is the rest of a suspended call,
  lines 103 to 106: when the adapter accepted the command the interval is armed and
  stored in \<^verbatim>\<open>permitJoinTimer\<close>; when the adapter rejected it the \<^verbatim>\<open>await\<close> throws, and no
  interval is armed. Whatever else runs between the two halves sees the state that
  \<open>permitJoin_begin\<close> left, in which \<^verbatim>\<open>permitJoinTimer\<close> is not yet set.
\<close>

definition permitJoin_begin :: "bool \<Rightarrow> controller \<Rightarrow> bool \<times> controller" where
  "permitJoin_begin permit s =
     (if permit \<and> permitJoinTimer s = None then
        (True, adapter_call (PermitJoin 254) s)
      else if permit \<and> permitJoinTimer s \<noteq> None then (False, s)
      else
        (False,
         let s1 = adapter_call (PermitJoin 0) s
         in case permitJoinTimer s1 of
              Some h \<Rightarrow> (clearInterval h s1)\<lparr>permitJoinTimer := None\<rparr>
            | None \<Rightarrow> s1))"

definition permitJoin_resume :: "bool \<Rightarrow> controller \<Rightarrow> error option \<times> controller" where
  "permitJoin_resume accepted s =
     (if accepted then
        (let (h, s2) = setInterval PermitJoinRenew (200 * 1000) s
         in (None, s2\<lparr>permitJoinTimer := Some h\<rparr>))
      else (Some AdapterError, s))"

text \<open>
  A call of \<^verbatim>\<open>permitJoin\<close> during whose suspension nothing else runs, and whose adapter
  command is accepted: the two halves back to back.
\<close>

definition permitJoin :: "bool \<Rightarrow> controller \<Rightarrow> controller" where
  "permitJoin permit s =
     (case permitJoin_begin permit s of
        (True, s1) \<Rightarrow> snd (permitJoin_resume True s1)
      | (False, s1) \<Rightarrow> s1)"

text \<open>
  \<^verbatim>\<open>getPermitJoin\<close> (lines 120 to 122) returns \<^verbatim>\<open>this.permitJoin != null\<close>. The member
  \<^verbatim>\<open>permitJoin\<close> is the method above, not the field \<^verbatim>\<open>permitJoinTimer\<close>: reading it
  always yields the function, whatever the state.
\<close>

definition getPermitJoin :: "controller \<Rightarrow> bool" where
  "getPermitJoin s = (\<not> Option.is_none (Some permitJoin))"

section \<open>The database of devices and groups\<close>

text \<open>
  Modelled from the spec: the repository operations of \<^verbatim>\<open>Device\<close> and \<^verbatim>\<open>Group\<close>
  (\<^verbatim>\<open>findByIeeeAddr\<close>, \<^verbatim>\<open>findByNetworkAddress\<close>, \<^verbatim>\<open>findByType\<close>, \<^verbatim>\<open>create\<close>, \<^verbatim>\<open>get\<close>,
  \<^verbatim>\<open>set\<close>, \<^verbatim>\<open>getEndpoint\<close>, \<^verbatim>\<open>createEndpoint\<close>, \<^verbatim>\<open>findByGroupID\<close>, \<^verbatim>\<open>command\<close>) are not
  part of the sources. Devices and groups are kept in creation order; an object handed
  out by a lookup is its position in that list, so that a later \<^verbatim>\<open>set\<close> changes the
  object that was found. A lookup that finds nothing returns a falsy value, as the tests
  \<^verbatim>\<open>if (!device)\<close> of the controller expect.
\<close>

fun findIndex :: "('a \<Rightarrow> bool) \<Rightarrow> 'a list \<Rightarrow> nat option" where
  "findIndex P [] = None"
| "findIndex P (x # xs) = (if P x then Some 0 else map_option Suc (findIndex P xs))"

definition Device_findByIeeeAddr :: "string \<Rightarrow> controller \<Rightarrow> nat option" where
  "Device_findByIeeeAddr a s = findIndex (\<lambda>d. ieeeAddr d = a) (devices s)"

definition Device_findByNetworkAddress :: "nat \<Rightarrow> controller \<Rightarrow> nat option" where
  "Device_findByNetworkAddress n s = findIndex (\<lambda>d. networkAddress d = n) (devices s)"

definition Device_findByType :: "string \<Rightarrow> controller \<Rightarrow> device list" where
  "Device_findByType t s = filter (\<lambda>d. type d = Some t) (devices s)"

text \<open>
  \<^verbatim>\<open>Device.create(type, ieeeAddr, networkAddress, manufacturerID, _, _, _, endpoints)\<close>:
  the controller passes \<^verbatim>\<open>undefined\<close> for the three remaining arguments in both of its
  calls, so the new device has no model id; it is not interviewed.
\<close>

definition Device_create ::
  "string option \<Rightarrow> string \<Rightarrow> nat \<Rightarrow> nat option \<Rightarrow> nat list \<Rightarrow> controller \<Rightarrow> nat \<times> controller" where
  "Device_create t a n m es s =
     (length (devices s),
      s\<lparr>devices := devices s @
         [\<lparr>type = t, ieeeAddr = a, networkAddress = n, manufacturerID = m,
           modelID = JUndefined, interviewed = False, interviewing = False,
           endpoints = es\<rparr>]\<rparr>)"

definition Device_set :: "nat \<Rightarrow> (device \<Rightarrow> device) \<Rightarrow> controller \<Rightarrow> controller" where
  "Device_set i f s = s\<lparr>devices := (devices s)[i := f (devices s ! i)]\<rparr>"

definition getEndpoint :: "device \<Rightarrow> nat \<Rightarrow> nat option" where
  "getEndpoint d e = (if e \<in> set (endpoints d) then Some e else None)"

definition createEndpoint :: "nat \<Rightarrow> nat \<Rightarrow> controller \<Rightarrow> nat \<times> controller" where
  "createEndpoint i e s = (e, Device_set i (\<lambda>d. d\<lparr>endpoints := endpoints d @ [e]\<rparr>) s)"

definition Group_findByGroupID :: "nat \<Rightarrow> controller \<Rightarrow> nat option" where
  "Group_findByGroupID g s = findIndex (\<lambda>x. groupID x = g) (groups s)"

definition Group_create :: "nat \<Rightarrow> controller \<Rightarrow> nat \<times> controller" where
  "Group_create g s =
     (length (groups s), s\<lparr>groups := groups s @ [\<lparr>groupID = g, members = []\<rparr>]\<rparr>)"

definition Group_command :: "nat \<Rightarrow> string \<Rightarrow> string \<Rightarrow> controller \<Rightarrow> controller" where
  "Group_command j cluster cmd s =
     adapter_call (GroupCommand (groupID (groups s ! j)) cluster cmd) s"

text \<open>
  Modelled from the spec: \<^verbatim>\<open>Device.interview\<close> is not part of the sources. The interview
  session is a per-device marker that prevents two concurrent interviews: a call that
  finds the marker set returns \<^verbatim>\<open>alreadyInProgress\<close> at once and changes nothing; a call
  that finds it clear sets it, runs the interview protocol, clears it and returns the
  outcome, after which the device is interviewed exactly when the outcome is
  \<^verbatim>\<open>successful\<close>. The protocol waits for the device, and the handlers of the events that
  arrive meanwhile run before the call returns: \<open>during\<close> is what they do to the state, the
  identity when nothing arrives. \<open>ok\<close> is the outcome of the protocol.
\<close>

definition Device_interview ::
  "(controller \<Rightarrow> controller) \<Rightarrow> bool \<Rightarrow> nat \<Rightarrow> controller \<Rightarrow> interview_status \<times> controller" where
  "Device_interview during ok i s =
     (if interviewing (devices s ! i) then (alreadyInProgress, s)
      else
        (let s1 = Device_set i (\<lambda>d. d\<lparr>interviewing := True\<rparr>) s;
             s2 = during s1;
             s3 = Device_set i (\<lambda>d. d\<lparr>interviewing := False, interviewed := ok\<rparr>) s2
         in (if ok then successful else failed, s3)))"

section \<open>Public operations\<close>

text \<open>
  \<^verbatim>\<open>start\<close> (lines 66 to 95). The fields \<open>devices\<close> and \<open>groups\<close> are the content of the
  database that \<^verbatim>\<open>Database.open\<close> makes available; \<open>coordinator\<close> is what
  \<^verbatim>\<open>adapter.getCoordinator()\<close> reports.
\<close>

record coordinator =
  co_ieeeAddr :: string
  co_networkAddress :: nat
  co_manufacturerID :: nat
  co_endpoints :: "nat list"

definition start :: "coordinator \<Rightarrow> controller \<Rightarrow> controller" where
  "start coord s =
     (let s1 = adapter_call AdapterStart s;
          s2 = (if length (Device_findByType ''Coordinator'' s1) = 0 then
                  (let s' = adapter_call GetCoordinator s1
                   in snd (Device_create (Some ''Coordinator'') (co_ieeeAddr coord)
                             (co_networkAddress coord) (Some (co_manufacturerID coord))
                             (co_endpoints coord) s'))
                else s1)
      in setTimeout StartupGroupOff 1000 s2)"

definition getOrCreateGroup :: "nat \<Rightarrow> controller \<Rightarrow> nat \<times> controller" where
  "getOrCreateGroup g s =
     (case Group_findByGroupID g s of Some j \<Rightarrow> (j, s) | None \<Rightarrow> Group_create g s)"

text \<open>
  The callbacks of the timers. \<open>PermitJoinRenew\<close> is the body of the interval of
  \<^verbatim>\<open>permitJoin\<close> (lines 103 to 106). \<open>StartupGroupOff\<close> is the body of the timeout of
  \<^verbatim>\<open>start\<close> (lines 85 to 94): when the lookup finds no device, \<^verbatim>\<open>device.getEndpoint(1)\<close>
  is a property access on a falsy value and throws before anything else happens.
\<close>

fun runTask :: "task \<Rightarrow> controller \<Rightarrow> error option \<times> controller" where
  "runTask PermitJoinRenew s = (None, adapter_call (PermitJoin 254) s)"
| "runTask StartupGroupOff s =
     (case Device_findByIeeeAddr ''0x000b57fffec6a5b2'' s of
        None \<Rightarrow> (Some TypeError, s)
      | Some i \<Rightarrow>
          (let endpoint = getEndpoint (devices s ! i) 1;
               (j, s1) = getOrCreateGroup 1 s
           in (None, Group_command j ''genOnOff'' ''off'' s1)))"

definition stop :: "controller \<Rightarrow> controller" where
  "stop s = adapter_call AdapterStop (permitJoin False s)"

section \<open>Handlers of the adapter's events\<close>

text \<open>
  An event carries the device as it is when the event is emitted. \<^verbatim>\<open>onDeviceAnnounce\<close>
  (lines 153 to 157), \<^verbatim>\<open>onAdapterDisconnected\<close> (lines 159 to 168).
\<close>

definition onDeviceAnnounce :: "string \<Rightarrow> controller \<Rightarrow> controller" where
  "onDeviceAnnounce a s =
     emit (deviceAnnounce (map_option (\<lambda>i. devices s ! i) (Device_findByIeeeAddr a s))) s"

definition onAdapterDisconnected :: "controller \<Rightarrow> controller" where
  "onAdapterDisconnected s = emit adapterDisconnected (adapter_call AdapterStop s)"

text \<open>
  \<^verbatim>\<open>onDeviceJoined\<close> (lines 170 to 199). \<open>interview\<close> is \<^verbatim>\<open>device.interview()\<close> on the
  device with the given handle.
\<close>

record DeviceJoinedPayload =
  dj_ieeeAddr :: string
  dj_networkAddress :: nat

definition onDeviceJoined ::
  "(nat \<Rightarrow> controller \<Rightarrow> interview_status \<times> controller) \<Rightarrow> DeviceJoinedPayload \<Rightarrow>
   controller \<Rightarrow> controller" where
  "onDeviceJoined interview payload s =
     (let (i, s1) =
            (case Device_findByIeeeAddr (dj_ieeeAddr payload) s of
               None \<Rightarrow>
                 (let (i, s') = Device_create None (dj_ieeeAddr payload)
                                  (dj_networkAddress payload) None [] s
                  in (i, emit (deviceJoined (devices s' ! i)) s'))
             | Some i \<Rightarrow>
                 (i, if networkAddress (devices s ! i) \<noteq> dj_networkAddress payload
                     then Device_set i (\<lambda>d. d\<lparr>networkAddress := dj_networkAddress payload\<rparr>) s
                     else s))
      in if \<not> interviewed (devices s1 ! i) then
           (let s2 = emit (deviceInterview started (devices s1 ! i)) s1;
                (status, s3) = interview i s2
            in if status \<noteq> alreadyInProgress
               then emit (deviceInterview status (devices s3 ! i)) s3
               else s3)
         else s1)"

text \<open>
  The frame of a \<^verbatim>\<open>zclData\<close> event. The frame codec is not part of the sources: the
  fields are the ones the controller reads, \<open>getCommand\<close> is the result of
  \<^verbatim>\<open>frame.getCommand()\<close>. The frame type is a two-bit field of which the controller names
  two values; \<open>RESERVED\<close> stands for the others, for which neither branch is taken.
\<close>

datatype FrameType = GLOBAL | SPECIFIC | RESERVED

record FrameControl =
  frameType :: FrameType
  disableDefaultResponse :: bool

record ZclHeader =
  frameControl :: FrameControl
  commandIdentifier :: nat

record ZclCommand =
  ID :: nat
  name :: string

record ZclFrame =
  Header :: ZclHeader
  ClusterID :: nat
  Payload :: KeyValue
  getCommand :: ZclCommand

record ZclDataPayload =
  zcl_networkAddress :: nat
  zcl_endpoint :: nat
  zcl_frame :: ZclFrame
  zcl_linkquality :: nat
  zcl_groupID :: "nat option"

text \<open>
  What \<^verbatim>\<open>onZclData\<close> takes from modules that are not part of the sources: the command
  ids \<^verbatim>\<open>Foundation.report.ID\<close> and \<^verbatim>\<open>Foundation.readRsp.ID\<close>, the table
  \<^verbatim>\<open>CommandsLookup\<close>, the converter \<^verbatim>\<open>ZclFrameConverter.attributeList\<close>, and whether the
  send of a default response to a network address fails.
\<close>

record zcl_env =
  report_ID :: nat
  readRsp_ID :: nat
  CommandsLookup :: "string \<rightharpoonup> MessagePayloadType"
  attributeList :: "ZclFrame \<Rightarrow> KeyValue"
  sendFails :: "nat \<Rightarrow> bool"

text \<open>
  \<^verbatim>\<open>endpoint.defaultResponse\<close>: the call is issued to the adapter, and throws when the
  send fails.
\<close>

definition Endpoint_defaultResponse ::
  "zcl_env \<Rightarrow> nat \<Rightarrow> nat \<Rightarrow> nat \<Rightarrow> nat \<Rightarrow> nat \<Rightarrow> controller \<Rightarrow> error option \<times> controller" where
  "Endpoint_defaultResponse env nwk e cmd status cluster s =
     (if sendFails env nwk then Some SendError else None,
      adapter_call (DefaultResponse nwk e cmd status cluster) s)"

text \<open>
  The classification of lines 216 to 236: the kind and the data of the message, or
  nothing when \<^verbatim>\<open>type\<close> stays \<^verbatim>\<open>undefined\<close>.
\<close>

definition classify :: "zcl_env \<Rightarrow> ZclFrame \<Rightarrow> (MessagePayloadType \<times> KeyValue) option" where
  "classify env frame =
     (let command = commandIdentifier (Header frame)
      in if frameType (frameControl (Header frame)) = GLOBAL then
           (if command = report_ID env then Some (attributeReport, attributeList env frame)
            else if command = readRsp_ID env then Some (readResponse, attributeList env frame)
            else None)
         else if frameType (frameControl (Header frame)) = SPECIFIC then
           (let command = name (getCommand frame)
            in case CommandsLookup env command of
                 Some t \<Rightarrow> Some (t, Payload frame)
               | None \<Rightarrow> None)
         else None)"

text \<open>\<^verbatim>\<open>onZclData\<close> (lines 201 to 259); the result says whether an error leaves the handler.\<close>

definition onZclData :: "zcl_env \<Rightarrow> ZclDataPayload \<Rightarrow> controller \<Rightarrow> error option \<times> controller" where
  "onZclData env zclData s =
     (case Device_findByNetworkAddress (zcl_networkAddress zclData) s of
        None \<Rightarrow> (None, s)
      | Some i \<Rightarrow>
          (let (endpoint, s1) =
                 (case getEndpoint (devices s ! i) (zcl_endpoint zclData) of
                    Some e \<Rightarrow> (e, s)
                  | None \<Rightarrow> createEndpoint i (zcl_endpoint zclData) s);
               c = classify env (zcl_frame zclData);
               s2 = (case c of
                       Some (t, data) \<Rightarrow>
                         if (t = readResponse \<or> t = attributeReport)
                            \<and> truthy (property data ''modelId'')
                            \<and> \<not> truthy (modelID (devices s1 ! i))
                         then Device_set i (\<lambda>d. d\<lparr>modelID := property data ''modelId''\<rparr>) s1
                         else s1
                     | None \<Rightarrow> s1);
               s3 = (case c of
                       Some (t, data) \<Rightarrow>
                         emit (message
                           \<lparr>msg_type = t, msg_device = devices s2 ! i,
                            msg_endpoint = getEndpoint (devices s2 ! i) (zcl_endpoint zclData),
                            msg_data = data, msg_linkquality = zcl_linkquality zclData,
                            msg_groupID = zcl_groupID zclData\<rparr>) s2
                     | None \<Rightarrow> s2)
           in if \<not> disableDefaultResponse (frameControl (Header (zcl_frame zclData))) then
                (case Endpoint_defaultResponse env (networkAddress (devices s3 ! i)) endpoint
                        (ID (getCommand (zcl_frame zclData))) 0
                        (ClusterID (zcl_frame zclData)) s3 of
                   (Some err, s4) \<Rightarrow> (None, s4)
                 | (None, s4) \<Rightarrow> (None, s4))
              else (None, s3)))"

section \<open>Runs of the controller\<close>

text \<open>
  What can happen to a controller, one step at a time: a call of a public operation, a
  timer that fires, an event of the adapter. In these runs every step is finished before
  the next one starts: a call of \<^verbatim>\<open>permitJoin\<close> is awaited and its adapter command is
  accepted, and a join is handled with an interview during which nothing else arrives.
  An error that leaves the callback of a timer is lost.
\<close>

datatype action =
    CallStart coordinator
  | CallStop
  | CallPermitJoin bool
  | IntervalFires nat
  | TimeoutFires
  | Joined bool DeviceJoinedPayload
  | Announce string
  | Disconnected
  | ZclData zcl_env ZclDataPayload

fun fireInterval :: "nat \<Rightarrow> (nat \<times> nat \<times> task) list \<Rightarrow> controller \<Rightarrow> controller" where
  "fireInterval h [] s = s"
| "fireInterval h ((h', ms, t) # ts) s =
     (if h' = h then snd (runTask t s) else fireInterval h ts s)"

fun step :: "action \<Rightarrow> controller \<Rightarrow> controller" where
  "step (CallStart coord) s = start coord s"
| "step CallStop s = stop s"
| "step (CallPermitJoin permit) s = permitJoin permit s"
| "step (IntervalFires h) s = fireInterval h (intervals s) s"
| "step TimeoutFires s =
     (case timeouts s of
        [] \<Rightarrow> s
      | (ms, t) # ts \<Rightarrow> snd (runTask t (s\<lparr>timeouts := ts\<rparr>)))"
| "step (Joined ok payload) s = onDeviceJoined (Device_interview (\<lambda>s. s) ok) payload s"
| "step (Announce a) s = onDeviceAnnounce a s"
| "step Disconnected s = onAdapterDisconnected s"
| "step (ZclData env zclData) s = snd (onZclData env zclData s)"

fun run :: "action list \<Rightarrow> controller \<Rightarrow> controller" where
  "run [] s = s"
| "run (a # as) s = run as (step a s)"

text \<open>
  The device that sent a frame, as lines 210 to 241 leave it: the endpoint of the frame
  is created when the device does not have it, and the model id is written under the
  test of line 239.
\<close>

definition dispatched :: "zcl_env \<Rightarrow> ZclDataPayload \<Rightarrow> device \<Rightarrow> device" where
  "dispatched env z d =
     (let e = zcl_endpoint z;
          d1 = (if e \<in> set (endpoints d) then d else d\<lparr>endpoints := endpoints d @ [e]\<rparr>)
      in case classify env (zcl_frame z) of
           Some (t, data) \<Rightarrow>
             if (t = readResponse \<or> t = attributeReport) \<and> truthy (property data ''modelId'')
                \<and> \<not> truthy (modelID d)
             then d1\<lparr>modelID := property data ''modelId''\<rparr> else d1
         | None \<Rightarrow> d1)"

text \<open>
  The timers of the runtime agree with the field \<^verbatim>\<open>permitJoinTimer\<close>: the only active
  interval is the renewal that the field holds.
\<close>

definition renewal_inv :: "controller \<Rightarrow> bool" where
  "renewal_inv s =
     (intervals s =
        (case permitJoinTimer s of
           None \<Rightarrow> []
         | Some h \<Rightarrow> [(h, 200 * 1000, PermitJoinRenew)]))"

subsection \<open>Concrete inputs\<close>

definition example_join :: DeviceJoinedPayload where
  "example_join = \<lparr>dj_ieeeAddr = ''0xAA'', dj_networkAddress = 1\<rparr>"

definition example_device :: device where
  "example_device =
     \<lparr>type = None, ieeeAddr = ''0xAA'', networkAddress = 1, manufacturerID = None,
      modelID = JUndefined, interviewed = False, interviewing = False, endpoints = []\<rparr>"

definition example_coordinator :: coordinator where
  "example_coordinator =
     \<lparr>co_ieeeAddr = ''0x00124b0001'', co_networkAddress = 0, co_manufacturerID = 7,
      co_endpoints = [1]\<rparr>"

definition example_known :: controller where
  "example_known = Controller_new\<lparr>devices := [example_device]\<rparr>"

definition example_env :: zcl_env where
  "example_env =
     \<lparr>report_ID = 10, readRsp_ID = 1,
      CommandsLookup = [''on'' \<mapsto> otherType ''commandOn''],
      attributeList = Payload, sendFails = (\<lambda>n. False)\<rparr>"

definition example_frame :: "FrameType \<Rightarrow> nat \<Rightarrow> string \<Rightarrow> jsval \<Rightarrow> ZclDataPayload" where
  "example_frame ft cmd nm v =
     \<lparr>zcl_networkAddress = 1, zcl_endpoint = 1,
      zcl_frame =
        \<lparr>Header = \<lparr>frameControl = \<lparr>frameType = ft, disableDefaultResponse = False\<rparr>,
                   commandIdentifier = cmd\<rparr>,
         ClusterID = 0, Payload = [''modelId'' \<mapsto> v],
         getCommand = \<lparr>ID = cmd, name = nm\<rparr>\<rparr>,
      zcl_linkquality = 100, zcl_groupID = None\<rparr>"

definition example_message :: "MessagePayloadType \<Rightarrow> device \<Rightarrow> event" where
  "example_message t d =
     message \<lparr>msg_type = t, msg_device = d, msg_endpoint = Some 1,
              msg_data = [''modelId'' \<mapsto> JStr ''X''], msg_linkquality = 100,
              msg_groupID = None\<rparr>"

text \<open>
  Two calls \<^verbatim>\<open>permitJoin(true)\<close> on a new controller, the second made before the first
  is resumed; then both are resumed, the adapter having accepted both commands.
\<close>

definition example_overlapped :: controller where
  "example_overlapped =
     (let (w1, s1) = permitJoin_begin True Controller_new;
          (w2, s2) = permitJoin_begin True s1;
          (e1, s3) = permitJoin_resume True s2;
          (e2, s4) = permitJoin_resume True s3
      in s4)"

section \<open>Properties\<close>

lemmas db_defs = Device_findByIeeeAddr_def Device_findByNetworkAddress_def Device_findByType_def
  Device_create_def Device_set_def getEndpoint_def createEndpoint_def Group_findByGroupID_def
  Group_create_def Group_command_def emit_def adapter_call_def emitted_def adapterCalls_def

lemmas example_defs = example_join_def example_device_def example_coordinator_def
  example_known_def example_env_def example_frame_def example_message_def
  Controller_new_def

lemma events_of_append [simp]: "events_of (xs @ ys) = events_of xs @ events_of ys"
  by (induction xs rule: events_of.induct) simp_all

lemma calls_of_append [simp]: "calls_of (xs @ ys) = calls_of xs @ calls_of ys"
  by (induction xs rule: calls_of.induct) simp_all

lemma permitJoin_awaited:
  "permitJoin permit s =
     (if permit \<and> permitJoinTimer s = None then
        (let s1 = adapter_call (PermitJoin 254) s;
             (h, s2) = setInterval PermitJoinRenew (200 * 1000) s1
         in s2\<lparr>permitJoinTimer := Some h\<rparr>)
      else if permit \<and> permitJoinTimer s \<noteq> None then s
      else
        (let s1 = adapter_call (PermitJoin 0) s
         in case permitJoinTimer s1 of
              Some h \<Rightarrow> (clearInterval h s1)\<lparr>permitJoinTimer := None\<rparr>
            | None \<Rightarrow> s1))"
  by (simp add: permitJoin_def permitJoin_begin_def permitJoin_resume_def Let_def
        split: prod.splits)

lemma findIndex_Some: "findIndex P xs = Some i \<Longrightarrow> i < length xs \<and> P (xs ! i)"
  by (induction xs arbitrary: i) (auto split: if_splits)

lemma findIndex_None: "findIndex P xs = None \<longleftrightarrow> (\<forall>x \<in> set xs. \<not> P x)"
  by (induction xs) auto

lemma resolved_by_networkAddress:
  "Device_findByNetworkAddress n s = Some i \<Longrightarrow>
   i < length (devices s) \<and> networkAddress (devices s ! i) = n"
  using findIndex_Some [of "\<lambda>d. networkAddress d = n" "devices s" i]
  by (simp add: Device_findByNetworkAddress_def)

lemma resolved_by_ieeeAddr:
  "Device_findByIeeeAddr a s = Some i \<Longrightarrow> i < length (devices s) \<and> ieeeAddr (devices s ! i) = a"
  using findIndex_Some [of "\<lambda>d. ieeeAddr d = a" "devices s" i]
  by (simp add: Device_findByIeeeAddr_def)

subsection \<open>Joins and interviews\<close>

text \<open>
  C1. A duplicate join that arrives while the interview of the device is running: the
  first join of the device ''0xAA'' is handled on an empty database, and the same join
  arrives again while its interview waits for the device. The second handling finds the
  device not yet interviewed and publishes interview-started before it calls
  \<^verbatim>\<open>device.interview()\<close>, which then answers \<^verbatim>\<open>alreadyInProgress\<close>: two interview-started
  events for the device are published with no interview-finished event between them. No
  second interview-finished event is published and the interview is not restarted.
\<close>

theorem onDeviceJoined_duplicate_join_started_twice:
  "emitted (onDeviceJoined
             (Device_interview (onDeviceJoined (Device_interview (\<lambda>s. s) True) example_join) True)
             example_join Controller_new) =
     [deviceJoined example_device,
      deviceInterview started example_device,
      deviceInterview started (example_device\<lparr>interviewing := True\<rparr>),
      deviceInterview successful (example_device\<lparr>interviewed := True\<rparr>)]"
  by (simp add: onDeviceJoined_def Device_interview_def example_defs db_defs)

lemma interviewing_False_id:
  "\<not> interviewing (d::device) \<Longrightarrow>
   d\<lparr>networkAddress := n, interviewing := False, interviewed := b\<rparr> =
   d\<lparr>networkAddress := n, interviewed := b\<rparr>"
  by (cases d) simp

text \<open>
  C4. A join notification with hardware address \<open>H\<close> and network address \<open>N\<close>, handled
  with an interview of outcome \<open>ok\<close>. If no device has hardware address \<open>H\<close>, one device
  is created (hardware address \<open>H\<close>, network address \<open>N\<close>, no endpoints) and exactly one
  deviceJoined event is published, followed by the interview events. If the device
  exists with another network address, its stored network address becomes \<open>N\<close>, no device
  is added, and the events published are interview events only: no deviceJoined event.
\<close>

theorem onDeviceJoined_new_or_readdressed:
  "((\<forall>d \<in> set (devices s). ieeeAddr d \<noteq> H) \<longrightarrow>
      (let d0 = \<lparr>type = None, ieeeAddr = H, networkAddress = N, manufacturerID = None,
                 modelID = JUndefined, interviewed = False, interviewing = False,
                 endpoints = []\<rparr>;
           s' = step (Joined ok \<lparr>dj_ieeeAddr = H, dj_networkAddress = N\<rparr>) s
       in devices s' = devices s @ [d0\<lparr>interviewed := ok\<rparr>]
          \<and> emitted s' = emitted s @
               [deviceJoined d0, deviceInterview started d0,
                deviceInterview (if ok then successful else failed) (d0\<lparr>interviewed := ok\<rparr>)]))
   \<and> (\<forall>i. Device_findByIeeeAddr H s = Some i \<and> networkAddress (devices s ! i) \<noteq> N \<longrightarrow>
        (let d = (devices s ! i)\<lparr>networkAddress := N\<rparr>;
             s' = step (Joined ok \<lparr>dj_ieeeAddr = H, dj_networkAddress = N\<rparr>) s
         in ieeeAddr d = H
            \<and> devices s' =
                (devices s)[i := if interviewed d \<or> interviewing d then d
                                 else d\<lparr>interviewed := ok\<rparr>]
            \<and> emitted s' = emitted s @
                (if interviewed d then []
                 else if interviewing d then [deviceInterview started d]
                 else [deviceInterview started d,
                       deviceInterview (if ok then successful else failed)
                         (d\<lparr>interviewed := ok\<rparr>)])))"
proof (intro conjI impI allI)
  assume "\<forall>d \<in> set (devices s). ieeeAddr d \<noteq> H"
  then have "Device_findByIeeeAddr H s = None"
    by (simp add: Device_findByIeeeAddr_def findIndex_None)
  then show "let d0 = \<lparr>type = None, ieeeAddr = H, networkAddress = N, manufacturerID = None,
                 modelID = JUndefined, interviewed = False, interviewing = False,
                 endpoints = []\<rparr>;
           s' = step (Joined ok \<lparr>dj_ieeeAddr = H, dj_networkAddress = N\<rparr>) s
       in devices s' = devices s @ [d0\<lparr>interviewed := ok\<rparr>]
          \<and> emitted s' = emitted s @
               [deviceJoined d0, deviceInterview started d0,
                deviceInterview (if ok then successful else failed) (d0\<lparr>interviewed := ok\<rparr>)]"
    by (simp add: onDeviceJoined_def Device_interview_def Device_create_def Device_set_def
          emit_def emitted_def Let_def)
next
  fix i
  assume a: "Device_findByIeeeAddr H s = Some i \<and> networkAddress (devices s ! i) \<noteq> N"
  then have r: "i < length (devices s)" "ieeeAddr (devices s ! i) = H"
    using resolved_by_ieeeAddr [of H s i] by simp_all
  show "let d = (devices s ! i)\<lparr>networkAddress := N\<rparr>;
             s' = step (Joined ok \<lparr>dj_ieeeAddr = H, dj_networkAddress = N\<rparr>) s
         in ieeeAddr d = H
            \<and> devices s' =
                (devices s)[i := if interviewed d \<or> interviewing d then d
                                 else d\<lparr>interviewed := ok\<rparr>]
            \<and> emitted s' = emitted s @
                (if interviewed d then []
                 else if interviewing d then [deviceInterview started d]
                 else [deviceInterview started d,
                       deviceInterview (if ok then successful else failed)
                         (d\<lparr>interviewed := ok\<rparr>)])"
    using a r
    by (auto simp add: interviewing_False_id onDeviceJoined_def Device_interview_def
          Device_set_def emit_def emitted_def Let_def)
qed

theorem onDeviceJoined_new_or_readdressed_witness:
  "Device_findByIeeeAddr ''0xAA'' Controller_new = None
   \<and> devices (step (Joined True example_join) Controller_new) =
       [example_device\<lparr>interviewed := True\<rparr>]
   \<and> emitted (step (Joined True example_join) Controller_new) =
       [deviceJoined example_device, deviceInterview started example_device,
        deviceInterview successful (example_device\<lparr>interviewed := True\<rparr>)]
   \<and> Device_findByIeeeAddr ''0xAA'' example_known = Some 0
   \<and> networkAddress (devices example_known ! 0) \<noteq> 2
   \<and> devices (step (Joined True \<lparr>dj_ieeeAddr = ''0xAA'', dj_networkAddress = 2\<rparr>) example_known) =
       [example_device\<lparr>networkAddress := 2, interviewed := True\<rparr>]
   \<and> emitted (step (Joined True \<lparr>dj_ieeeAddr = ''0xAA'', dj_networkAddress = 2\<rparr>) example_known) =
       [deviceInterview started (example_device\<lparr>networkAddress := 2\<rparr>),
        deviceInterview successful (example_device\<lparr>networkAddress := 2, interviewed := True\<rparr>)]"
  using onDeviceJoined_new_or_readdressed
      [where s = Controller_new and H = "''0xAA''" and N = 1 and ok = True]
    onDeviceJoined_new_or_readdressed
      [where s = example_known and H = "''0xAA''" and N = 2 and ok = True]
  by (simp add: example_defs Device_findByIeeeAddr_def emitted_def Let_def)

subsection \<open>Device announce\<close>

text \<open>
  C9. A device-announce event does one thing: it publishes exactly one deviceAnnounce
  event, carrying the result of the lookup by hardware address: the device found, or an
  absent device when no device has that address. Nothing else changes: no device is
  created, no interview is started, no adapter command is issued.
\<close>

theorem onDeviceAnnounce_republishes_lookup:
  "((\<forall>d \<in> set (devices s). ieeeAddr d \<noteq> a) \<longrightarrow>
      onDeviceAnnounce a s = s\<lparr>effects := effects s @ [Emitted (deviceAnnounce None)]\<rparr>)
   \<and> (\<forall>i. Device_findByIeeeAddr a s = Some i \<longrightarrow>
        ieeeAddr (devices s ! i) = a \<and>
        onDeviceAnnounce a s =
          s\<lparr>effects := effects s @ [Emitted (deviceAnnounce (Some (devices s ! i)))]\<rparr>)"
  using findIndex_None [of "\<lambda>d. ieeeAddr d = a" "devices s"]
    findIndex_Some [of "\<lambda>d. ieeeAddr d = a" "devices s"]
  by (auto simp add: onDeviceAnnounce_def Device_findByIeeeAddr_def emit_def)

theorem onDeviceAnnounce_republishes_lookup_witness:
  "Device_findByIeeeAddr ''0xAA'' Controller_new = None
   \<and> onDeviceAnnounce ''0xAA'' Controller_new =
       Controller_new\<lparr>effects := [Emitted (deviceAnnounce None)]\<rparr>
   \<and> Device_findByIeeeAddr ''0xAA'' example_known = Some 0
   \<and> onDeviceAnnounce ''0xAA'' example_known =
       example_known\<lparr>effects := [Emitted (deviceAnnounce (Some example_device))]\<rparr>"
  using onDeviceAnnounce_republishes_lookup [where a = "''0xAA''" and s = Controller_new]
    onDeviceAnnounce_republishes_lookup [where a = "''0xAA''" and s = example_known]
  by (simp add: example_defs Device_findByIeeeAddr_def)

subsection \<open>Frames\<close>

text \<open>
  C7. A frame whose network address resolves to no device is dropped: the handler
  returns without an error and leaves the whole state as it was, so no event is
  published, nothing is written to the database and nothing is sent.
\<close>

theorem onZclData_unknown_device_dropped:
  "Device_findByNetworkAddress (zcl_networkAddress zclData) s = None \<Longrightarrow>
   onZclData env zclData s = (None, s)"
  by (simp add: onZclData_def)

theorem onZclData_unknown_device_dropped_witness:
  "Device_findByNetworkAddress
     (zcl_networkAddress (example_frame GLOBAL 10 ''report'' (JStr ''X''))) Controller_new = None
   \<and> onZclData example_env (example_frame GLOBAL 10 ''report'' (JStr ''X'')) Controller_new =
       (None, Controller_new)"
proof -
  have h: "Device_findByNetworkAddress
     (zcl_networkAddress (example_frame GLOBAL 10 ''report'' (JStr ''X''))) Controller_new = None"
    by (simp add: example_defs Device_findByNetworkAddress_def)
  show ?thesis
    using h onZclData_unknown_device_dropped [OF h, where env = example_env] by simp
qed

lemma nth_list_update_any:
  "xs[i := x] ! j = (if i = j \<and> i < length xs then x else xs ! j)"
  by (cases "i < length xs") (auto simp add: nth_list_update list_update_beyond)

text \<open>
  What the handler does with a frame whose device is resolved, in one equation: the
  device is replaced by the dispatched one, at most one message event is published, at
  most one default response is issued, and no error leaves the handler.
\<close>

lemma onZclData_resolved:
  assumes "Device_findByNetworkAddress (zcl_networkAddress z) s = Some i"
  shows "onZclData env z s =
    (None,
     s\<lparr>devices := (devices s)[i := dispatched env z (devices s ! i)],
       effects := effects s @
         (case classify env (zcl_frame z) of
            Some (t, data) \<Rightarrow>
              [Emitted (message
                 \<lparr>msg_type = t, msg_device = dispatched env z (devices s ! i),
                  msg_endpoint = Some (zcl_endpoint z), msg_data = data,
                  msg_linkquality = zcl_linkquality z, msg_groupID = zcl_groupID z\<rparr>)]
          | None \<Rightarrow> []) @
         (if disableDefaultResponse (frameControl (Header (zcl_frame z))) then []
          else [Called (DefaultResponse (zcl_networkAddress z) (zcl_endpoint z)
                  (ID (getCommand (zcl_frame z))) 0 (ClusterID (zcl_frame z)))])\<rparr>)"
proof -
  have r: "i < length (devices s)" "networkAddress (devices s ! i) = zcl_networkAddress z"
    using resolved_by_networkAddress [OF assms] by simp_all
  show ?thesis
    using assms r
    by (cases "classify env (zcl_frame z)")
       (auto simp add: onZclData_def dispatched_def Endpoint_defaultResponse_def
          getEndpoint_def createEndpoint_def Device_set_def emit_def adapter_call_def Let_def
          split: prod.splits)
qed

text \<open>
  C3, as stated, fails: a frame from a network address that resolves to no device does
  not disable the default response in its header, and no default response is sent.
\<close>

theorem onZclData_unknown_device_sends_nothing:
  "Device_findByNetworkAddress
     (zcl_networkAddress (example_frame GLOBAL 10 ''report'' (JStr ''X''))) Controller_new = None
   \<and> \<not> disableDefaultResponse
         (frameControl (Header (zcl_frame (example_frame GLOBAL 10 ''report'' (JStr ''X'')))))
   \<and> effects
        (snd (onZclData example_env (example_frame GLOBAL 10 ''report'' (JStr ''X''))
               Controller_new)) = []"
  by (simp add: onZclData_def example_defs Device_findByNetworkAddress_def)

text \<open>
  C3, amended. For every frame whose network address resolves to a device: a default
  response is issued exactly when the header of the frame does not disable it; it goes
  out through the endpoint of the frame, to the device at that network address, for the
  command id of the frame, with status 0, on the cluster id of the frame. Whether or not
  the send fails, no error leaves the handler, and the message event of the frame (when
  the frame is classified) is published, before the send.
\<close>

theorem onZclData_default_response:
  assumes "Device_findByNetworkAddress (zcl_networkAddress z) s = Some i"
  shows "fst (onZclData env z s) = None
   \<and> effects (snd (onZclData env z s)) = effects s @
       (case classify env (zcl_frame z) of
          None \<Rightarrow> []
        | Some (t, data) \<Rightarrow>
            [Emitted (message
               \<lparr>msg_type = t, msg_device = devices (snd (onZclData env z s)) ! i,
                msg_endpoint = Some (zcl_endpoint z), msg_data = data,
                msg_linkquality = zcl_linkquality z, msg_groupID = zcl_groupID z\<rparr>)]) @
       (if disableDefaultResponse (frameControl (Header (zcl_frame z))) then []
        else [Called (DefaultResponse (zcl_networkAddress z) (zcl_endpoint z)
                (ID (getCommand (zcl_frame z))) 0 (ClusterID (zcl_frame z)))])"
proof -
  have r: "i < length (devices s)"
    using resolved_by_networkAddress [OF assms] by simp
  show ?thesis
    using r by (simp add: onZclData_resolved [OF assms] split: option.splits)
qed

theorem onZclData_default_response_witness:
  "Device_findByNetworkAddress
     (zcl_networkAddress (example_frame GLOBAL 10 ''report'' (JStr ''X''))) example_known = Some 0
   \<and> sendFails (example_env\<lparr>sendFails := \<lambda>n. True\<rparr>) 1
   \<and> fst (onZclData (example_env\<lparr>sendFails := \<lambda>n. True\<rparr>)
            (example_frame GLOBAL 10 ''report'' (JStr ''X'')) example_known) = None
   \<and> effects (snd (onZclData (example_env\<lparr>sendFails := \<lambda>n. True\<rparr>)
            (example_frame GLOBAL 10 ''report'' (JStr ''X'')) example_known)) =
       [Emitted (example_message attributeReport
          (example_device\<lparr>modelID := JStr ''X'', endpoints := [1]\<rparr>)),
        Called (DefaultResponse 1 1 10 0 0)]"
proof -
  have h: "Device_findByNetworkAddress
     (zcl_networkAddress (example_frame GLOBAL 10 ''report'' (JStr ''X''))) example_known = Some 0"
    by (simp add: example_defs Device_findByNetworkAddress_def)
  have e: ?thesis
    by (simp add: onZclData_def classify_def property_def Endpoint_defaultResponse_def
          example_defs db_defs Let_def)
  show ?thesis
    using onZclData_default_response
      [OF h, where env = "example_env\<lparr>sendFails := \<lambda>n. True\<rparr>"] e
    by blast
qed

text \<open>
  C5. For every frame whose source device is resolved: a global frame with the report
  id yields one attribute-report message whose payload is the attribute list of the
  frame; a global frame with the read-response id (the two ids being different) yields
  one read-response message with the same payload extraction; a specific frame whose
  command name is in the lookup table yields one message of the looked-up kind with the
  frame body as payload; a specific frame whose command name is not in the table
  publishes no event.
\<close>

theorem onZclData_classification:
  assumes "Device_findByNetworkAddress (zcl_networkAddress z) s = Some i"
  shows "(frameType (frameControl (Header (zcl_frame z))) = GLOBAL
      \<and> commandIdentifier (Header (zcl_frame z)) = report_ID env \<longrightarrow>
        emitted (snd (onZclData env z s)) = emitted s @
          [message \<lparr>msg_type = attributeReport,
                    msg_device = devices (snd (onZclData env z s)) ! i,
                    msg_endpoint = Some (zcl_endpoint z),
                    msg_data = attributeList env (zcl_frame z),
                    msg_linkquality = zcl_linkquality z, msg_groupID = zcl_groupID z\<rparr>])
   \<and> (frameType (frameControl (Header (zcl_frame z))) = GLOBAL
      \<and> commandIdentifier (Header (zcl_frame z)) = readRsp_ID env
      \<and> readRsp_ID env \<noteq> report_ID env \<longrightarrow>
        emitted (snd (onZclData env z s)) = emitted s @
          [message \<lparr>msg_type = readResponse,
                    msg_device = devices (snd (onZclData env z s)) ! i,
                    msg_endpoint = Some (zcl_endpoint z),
                    msg_data = attributeList env (zcl_frame z),
                    msg_linkquality = zcl_linkquality z, msg_groupID = zcl_groupID z\<rparr>])
   \<and> (\<forall>t. frameType (frameControl (Header (zcl_frame z))) = SPECIFIC
      \<and> CommandsLookup env (name (getCommand (zcl_frame z))) = Some t \<longrightarrow>
        emitted (snd (onZclData env z s)) = emitted s @
          [message \<lparr>msg_type = t,
                    msg_device = devices (snd (onZclData env z s)) ! i,
                    msg_endpoint = Some (zcl_endpoint z),
                    msg_data = Payload (zcl_frame z),
                    msg_linkquality = zcl_linkquality z, msg_groupID = zcl_groupID z\<rparr>])
   \<and> (frameType (frameControl (Header (zcl_frame z))) = SPECIFIC
      \<and> CommandsLookup env (name (getCommand (zcl_frame z))) = None \<longrightarrow>
        emitted (snd (onZclData env z s)) = emitted s)"
proof -
  have r: "i < length (devices s)"
    using resolved_by_networkAddress [OF assms] by simp
  show ?thesis
    using r by (simp add: onZclData_resolved [OF assms] classify_def emitted_def Let_def)
qed

lemma example_known_resolved:
  "Device_findByNetworkAddress (zcl_networkAddress (example_frame ft c n v)) example_known = Some 0"
  by (simp add: example_defs Device_findByNetworkAddress_def)

theorem onZclData_classification_witness:
  "emitted (snd (onZclData example_env (example_frame GLOBAL 10 ''report'' (JStr ''X''))
      example_known)) =
     [example_message attributeReport (example_device\<lparr>modelID := JStr ''X'', endpoints := [1]\<rparr>)]
   \<and> emitted (snd (onZclData example_env (example_frame GLOBAL 1 ''readRsp'' (JStr ''X''))
      example_known)) =
     [example_message readResponse (example_device\<lparr>modelID := JStr ''X'', endpoints := [1]\<rparr>)]
   \<and> emitted (snd (onZclData example_env (example_frame SPECIFIC 1 ''on'' (JStr ''X''))
      example_known)) =
     [example_message (otherType ''commandOn'') (example_device\<lparr>endpoints := [1]\<rparr>)]
   \<and> emitted (snd (onZclData example_env (example_frame SPECIFIC 2 ''toggle'' (JStr ''X''))
      example_known)) = []"
proof -
  have e: ?thesis
    by (simp add: onZclData_def classify_def property_def Endpoint_defaultResponse_def
          example_defs db_defs Let_def)
  show ?thesis
    using
      onZclData_classification
        [OF example_known_resolved [of GLOBAL 10 "''report''" "JStr ''X''"],
         where env = example_env]
      onZclData_classification
        [OF example_known_resolved [of GLOBAL 1 "''readRsp''" "JStr ''X''"],
         where env = example_env]
      onZclData_classification
        [OF example_known_resolved [of SPECIFIC 1 "''on''" "JStr ''X''"],
         where env = example_env]
      onZclData_classification
        [OF example_known_resolved [of SPECIFIC 2 "''toggle''" "JStr ''X''"],
         where env = example_env]
      e
    by blast
qed

subsection \<open>Model id\<close>

lemma devices_runTask: "devices (snd (runTask t s)) = devices s"
  by (cases t) (auto simp add: getOrCreateGroup_def db_defs Let_def split: option.splits)

lemma devices_fireInterval: "devices (fireInterval h ts s) = devices s"
  by (induction ts) (auto simp add: devices_runTask)

lemma modelID_onDeviceJoined:
  "j < length (devices s) \<Longrightarrow>
   j < length (devices (onDeviceJoined (Device_interview (\<lambda>s. s) ok) p s))
   \<and> modelID (devices (onDeviceJoined (Device_interview (\<lambda>s. s) ok) p s) ! j) =
       modelID (devices s ! j)"
  by (auto simp add: onDeviceJoined_def Device_interview_def db_defs Let_def nth_append
        nth_list_update_any split: option.splits)

lemma modelID_onZclData:
  assumes "j < length (devices s)" "truthy (modelID (devices s ! j))"
  shows "j < length (devices (snd (onZclData env z s)))
   \<and> modelID (devices (snd (onZclData env z s)) ! j) = modelID (devices s ! j)"
proof (cases "Device_findByNetworkAddress (zcl_networkAddress z) s")
  case None
  then show ?thesis using assms by (simp add: onZclData_def)
next
  case (Some i)
  show ?thesis
    using assms
    by (auto simp add: onZclData_resolved [OF Some] dispatched_def nth_list_update_any Let_def
          split: option.splits)
qed

lemma modelID_step:
  assumes "j < length (devices s)" "truthy (modelID (devices s ! j))"
  shows "j < length (devices (step a s))
   \<and> modelID (devices (step a s) ! j) = modelID (devices s ! j)"
proof (cases a)
  case (CallStart c)
  then show ?thesis using assms
    by (simp add: start_def setTimeout_def db_defs Let_def nth_append)
next
  case CallStop
  then show ?thesis using assms
    by (simp add: stop_def permitJoin_awaited adapter_call_def setInterval_def clearInterval_def
          Let_def split: option.splits)
next
  case (CallPermitJoin b)
  then show ?thesis using assms
    by (simp add: permitJoin_awaited adapter_call_def setInterval_def clearInterval_def
          Let_def split: option.splits)
next
  case (IntervalFires h)
  then show ?thesis using assms by (simp add: devices_fireInterval)
next
  case TimeoutFires
  then show ?thesis using assms by (simp add: devices_runTask split: list.splits)
next
  case (Joined ok p)
  then show ?thesis using assms modelID_onDeviceJoined [of j s ok p] by simp
next
  case (Announce x)
  then show ?thesis using assms by (simp add: onDeviceAnnounce_def emit_def)
next
  case Disconnected
  then show ?thesis using assms
    by (simp add: onAdapterDisconnected_def emit_def adapter_call_def)
next
  case (ZclData env z)
  then show ?thesis using modelID_onZclData [OF assms, of env z] by simp
qed

lemma modelID_run:
  "j < length (devices s) \<Longrightarrow> truthy (modelID (devices s ! j)) \<Longrightarrow>
   j < length (devices (run as s)) \<and> modelID (devices (run as s) ! j) = modelID (devices s ! j)"
proof (induction as arbitrary: s)
  case Nil
  then show ?case by simp
next
  case (Cons a as)
  have st: "j < length (devices (step a s))"
    "modelID (devices (step a s) ! j) = modelID (devices s ! j)"
    using modelID_step [OF Cons.prems, of a] by simp_all
  then have "truthy (modelID (devices (step a s) ! j))" using Cons.prems by simp
  then show ?case using Cons.IH [OF st(1)] st by simp
qed

text \<open>
  C6, as stated, fails in both halves on the empty string. A report whose payload
  contains the model identifier \<^verbatim>\<open>""\<close>, received from a device whose model id is unset,
  persists nothing: the test \<^verbatim>\<open>data.modelId && ...\<close> of line 239 is false. A device whose
  stored model id is \<^verbatim>\<open>""\<close> passes the test \<^verbatim>\<open>!device.get('modelID')\<close>, and a report
  carrying \<^verbatim>\<open>"X"\<close> overwrites it.
\<close>

theorem modelID_empty_string_not_persisted_and_overwritten:
  "Payload (zcl_frame (example_frame GLOBAL 10 ''report'' (JStr ''''))) ''modelId'' =
     Some (JStr '''')
   \<and> modelID (devices example_known ! 0) = JUndefined
   \<and> modelID (devices (snd (onZclData example_env
        (example_frame GLOBAL 10 ''report'' (JStr '''')) example_known)) ! 0) = JUndefined
   \<and> modelID (devices (snd (onZclData example_env
        (example_frame GLOBAL 10 ''report'' (JStr ''X''))
        (Controller_new\<lparr>devices := [example_device\<lparr>modelID := JStr ''''\<rparr>]\<rparr>))) ! 0) =
       JStr ''X''"
  by (simp add: onZclData_def classify_def property_def Endpoint_defaultResponse_def
        example_defs db_defs Let_def)

text \<open>
  C6, amended. For every device whose stored model id is unset or empty (falsy), a
  frame from it that is classified as attribute-report or read-response and whose
  payload carries a non-empty (truthy) model identifier persists that model id. For
  every device whose stored model id is non-empty, no later step of the controller (no
  frame of any kind, no call, no timer, no other adapter event) changes it.
\<close>

theorem modelID_backfill_once:
  "(\<forall>i t data. Device_findByNetworkAddress (zcl_networkAddress z) s = Some i
       \<and> classify env (zcl_frame z) = Some (t, data)
       \<and> (t = attributeReport \<or> t = readResponse)
       \<and> truthy (property data ''modelId'')
       \<and> \<not> truthy (modelID (devices s ! i)) \<longrightarrow>
         modelID (devices (snd (onZclData env z s)) ! i) = property data ''modelId'')
   \<and> (\<forall>j. j < length (devices s) \<and> truthy (modelID (devices s ! j)) \<longrightarrow>
         j < length (devices (run as s))
         \<and> modelID (devices (run as s) ! j) = modelID (devices s ! j))"
proof (intro conjI allI impI)
  fix i t data
  assume a: "Device_findByNetworkAddress (zcl_networkAddress z) s = Some i
       \<and> classify env (zcl_frame z) = Some (t, data)
       \<and> (t = attributeReport \<or> t = readResponse)
       \<and> truthy (property data ''modelId'')
       \<and> \<not> truthy (modelID (devices s ! i))"
  then have r: "Device_findByNetworkAddress (zcl_networkAddress z) s = Some i" by simp
  have l: "i < length (devices s)" using resolved_by_networkAddress [OF r] by simp
  show "modelID (devices (snd (onZclData env z s)) ! i) = property data ''modelId''"
    using a l by (auto simp add: onZclData_resolved [OF r] dispatched_def Let_def)
next
  fix j
  assume "j < length (devices s) \<and> truthy (modelID (devices s ! j))"
  then show "j < length (devices (run as s))" using modelID_run [of j s as] by simp
next
  fix j
  assume "j < length (devices s) \<and> truthy (modelID (devices s ! j))"
  then show "modelID (devices (run as s) ! j) = modelID (devices s ! j)"
    using modelID_run [of j s as] by simp
qed

theorem modelID_backfill_once_witness:
  "classify example_env (zcl_frame (example_frame GLOBAL 10 ''report'' (JStr ''X''))) =
     Some (attributeReport, [''modelId'' \<mapsto> JStr ''X''])
   \<and> modelID (devices example_known ! 0) = JUndefined
   \<and> modelID (devices (snd (onZclData example_env
        (example_frame GLOBAL 10 ''report'' (JStr ''X'')) example_known)) ! 0) = JStr ''X''
   \<and> modelID (devices (run [ZclData example_env (example_frame GLOBAL 10 ''report'' (JStr ''X'')),
                            ZclData example_env (example_frame GLOBAL 10 ''report'' (JStr ''Y''))]
        example_known) ! 0) = JStr ''X''"
proof -
  have e: ?thesis
    by (simp add: onZclData_def classify_def property_def Endpoint_defaultResponse_def
          example_defs db_defs Let_def)
  show ?thesis
    using
      modelID_backfill_once
        [where z = "example_frame GLOBAL 10 ''report'' (JStr ''X'')" and s = example_known
           and env = example_env and as = "[]"]
      modelID_backfill_once
        [where z = "example_frame GLOBAL 10 ''report'' (JStr ''X'')"
           and s = "run [ZclData example_env (example_frame GLOBAL 10 ''report'' (JStr ''X''))]
                      example_known"
           and env = example_env
           and as = "[ZclData example_env (example_frame GLOBAL 10 ''report'' (JStr ''Y''))]"]
      e
    by blast
qed

text \<open>
  A payload whose model identifier is absent or empty (falsy) never changes the stored
  model id of the device that sent it.
\<close>

lemma modelID_falsy_payload_not_persisted:
  assumes "Device_findByNetworkAddress (zcl_networkAddress z) s = Some i"
    and "classify env (zcl_frame z) = Some (t, data)"
    and "\<not> truthy (property data ''modelId'')"
  shows "modelID (devices (snd (onZclData env z s)) ! i) = modelID (devices s ! i)"
proof -
  have l: "i < length (devices s)"
    using resolved_by_networkAddress [OF assms(1)] by simp
  show ?thesis
    using assms(2,3) l by (simp add: onZclData_resolved [OF assms(1)] dispatched_def Let_def)
qed

subsection \<open>Join admission\<close>

text \<open>
  C2. \<^verbatim>\<open>getPermitJoin\<close> answers true on a controller that was just constructed, and
  again after \<^verbatim>\<open>permitJoin(true)\<close> followed by \<^verbatim>\<open>permitJoin(false)\<close>, although no renewal
  timer is armed in either state.
\<close>

theorem getPermitJoin_true_without_timer:
  "getPermitJoin Controller_new
   \<and> permitJoinTimer Controller_new = None
   \<and> intervals Controller_new = []
   \<and> getPermitJoin (permitJoin False (permitJoin True Controller_new))
   \<and> permitJoinTimer (permitJoin False (permitJoin True Controller_new)) = None
   \<and> intervals (permitJoin False (permitJoin True Controller_new)) = []"
  by (simp add: getPermitJoin_def Controller_new_def permitJoin_awaited adapter_call_def
        setInterval_def clearInterval_def)

lemma renewal_inv_permitJoin: "renewal_inv s \<Longrightarrow> renewal_inv (permitJoin b s)"
  by (auto simp add: renewal_inv_def permitJoin_awaited adapter_call_def setInterval_def
        clearInterval_def Let_def split: option.splits)

lemma timers_runTask:
  "intervals (snd (runTask t s)) = intervals s
   \<and> permitJoinTimer (snd (runTask t s)) = permitJoinTimer s"
  by (cases t) (auto simp add: getOrCreateGroup_def db_defs Let_def split: option.splits)

lemma timers_fireInterval:
  "intervals (fireInterval h ts s) = intervals s
   \<and> permitJoinTimer (fireInterval h ts s) = permitJoinTimer s"
  by (induction ts) (auto simp add: timers_runTask)

lemma timers_start:
  "intervals (start c s) = intervals s \<and> permitJoinTimer (start c s) = permitJoinTimer s"
  by (simp add: start_def setTimeout_def db_defs Let_def)

lemma timers_onDeviceJoined:
  "intervals (onDeviceJoined (Device_interview (\<lambda>s. s) ok) p s) = intervals s
   \<and> permitJoinTimer (onDeviceJoined (Device_interview (\<lambda>s. s) ok) p s) = permitJoinTimer s"
  by (simp add: onDeviceJoined_def Device_interview_def db_defs Let_def split: option.splits)

lemma timers_onZclData:
  "intervals (snd (onZclData env z s)) = intervals s
   \<and> permitJoinTimer (snd (onZclData env z s)) = permitJoinTimer s"
  by (simp add: onZclData_def Endpoint_defaultResponse_def db_defs Let_def
        split: option.splits prod.splits)

lemma renewal_inv_step: "renewal_inv s \<Longrightarrow> renewal_inv (step a s)"
proof (cases a)
  case (CallStart c)
  assume "renewal_inv s"
  then show ?thesis using CallStart timers_start [of c s] by (simp add: renewal_inv_def)
next
  case CallStop
  assume "renewal_inv s"
  then have "renewal_inv (permitJoin False s)" by (rule renewal_inv_permitJoin)
  then show ?thesis using CallStop by (simp add: stop_def renewal_inv_def adapter_call_def)
next
  case (CallPermitJoin b)
  assume "renewal_inv s"
  then show ?thesis using CallPermitJoin by (simp add: renewal_inv_permitJoin)
next
  case (IntervalFires h)
  assume "renewal_inv s"
  then show ?thesis using IntervalFires timers_fireInterval [of h "intervals s" s]
    by (simp add: renewal_inv_def)
next
  case TimeoutFires
  assume "renewal_inv s"
  then show ?thesis using TimeoutFires
    by (auto simp add: renewal_inv_def timers_runTask split: list.splits)
next
  case (Joined ok p)
  assume "renewal_inv s"
  then show ?thesis using Joined timers_onDeviceJoined [of ok p s] by (simp add: renewal_inv_def)
next
  case (Announce x)
  assume "renewal_inv s"
  then show ?thesis using Announce by (simp add: renewal_inv_def onDeviceAnnounce_def emit_def)
next
  case Disconnected
  assume "renewal_inv s"
  then show ?thesis using Disconnected
    by (simp add: renewal_inv_def onAdapterDisconnected_def emit_def adapter_call_def)
next
  case (ZclData env z)
  assume "renewal_inv s"
  then show ?thesis using ZclData timers_onZclData [of env z s] by (simp add: renewal_inv_def)
qed

lemma renewal_inv_run: "renewal_inv s \<Longrightarrow> renewal_inv (run as s)"
  by (induction as arbitrary: s) (simp_all add: renewal_inv_step)

lemma renewal_inv_new: "renewal_inv Controller_new"
  by (simp add: renewal_inv_def Controller_new_def)

text \<open>
  When every call is awaited and accepted, the controller keeps at most one interval: in
  every state that a new controller reaches by such calls, timers and adapter events,
  \<^verbatim>\<open>permitJoin(true)\<close> with no timer armed issues the adapter command with duration 254
  and arms one interval of period 200 * 1000 milliseconds, held in \<^verbatim>\<open>permitJoinTimer\<close>;
  with a timer armed it changes nothing, the armed interval is the only one, and each
  time it fires it issues the command with duration 254 again and stays armed.
\<close>

lemma awaited_calls_keep_one_interval:
  "(permitJoinTimer (run as Controller_new) = None \<longrightarrow>
      permitJoin True (run as Controller_new) =
        (run as Controller_new)
          \<lparr>effects := effects (run as Controller_new) @ [Called (PermitJoin 254)],
           intervals := [(nextTimer (run as Controller_new), 200 * 1000, PermitJoinRenew)],
           nextTimer := Suc (nextTimer (run as Controller_new)),
           permitJoinTimer := Some (nextTimer (run as Controller_new))\<rparr>)
   \<and> (\<forall>h. permitJoinTimer (run as Controller_new) = Some h \<longrightarrow>
        permitJoin True (run as Controller_new) = run as Controller_new
        \<and> intervals (run as Controller_new) = [(h, 200 * 1000, PermitJoinRenew)]
        \<and> step (IntervalFires h) (run as Controller_new) =
            (run as Controller_new)
              \<lparr>effects := effects (run as Controller_new) @ [Called (PermitJoin 254)]\<rparr>)
   \<and> length (intervals (run as Controller_new)) \<le> 1"
proof -
  define s where "s = run as Controller_new"
  have inv: "renewal_inv s"
    unfolding s_def by (rule renewal_inv_run [OF renewal_inv_new])
  have a: "permitJoinTimer s = None \<longrightarrow>
      permitJoin True s =
        s\<lparr>effects := effects s @ [Called (PermitJoin 254)],
           intervals := [(nextTimer s, 200 * 1000, PermitJoinRenew)],
           nextTimer := Suc (nextTimer s),
           permitJoinTimer := Some (nextTimer s)\<rparr>"
    using inv by (simp add: renewal_inv_def permitJoin_awaited adapter_call_def setInterval_def)
  have b: "\<forall>h. permitJoinTimer s = Some h \<longrightarrow>
        permitJoin True s = s
        \<and> intervals s = [(h, 200 * 1000, PermitJoinRenew)]
        \<and> step (IntervalFires h) s = s\<lparr>effects := effects s @ [Called (PermitJoin 254)]\<rparr>"
    using inv by (auto simp add: renewal_inv_def permitJoin_awaited adapter_call_def)
  have c: "length (intervals s) \<le> 1"
    using inv by (cases "permitJoinTimer s") (simp_all add: renewal_inv_def)
  show ?thesis using a b c unfolding s_def by blast
qed

text \<open>
  C8. The claim that at most one renewal timer is ever active fails when two calls
  \<^verbatim>\<open>permitJoin(true)\<close> overlap. On a new controller the first call passes the test of
  line 98, issues the adapter command and is suspended at line 100; the second call,
  made before the first is resumed, still finds \<^verbatim>\<open>permitJoinTimer\<close> unset, so it is not
  the no-op of line 107: it issues the command again and is suspended too. Both calls
  then arm an interval. Two renewal timers are active, and \<^verbatim>\<open>permitJoinTimer\<close> holds only
  the second: \<^verbatim>\<open>permitJoin(false)\<close> clears that one, and the first stays armed with
  nothing left that refers to it.
\<close>

theorem permitJoin_overlapping_calls_arm_two_timers:
  "fst (permitJoin_begin True Controller_new)
   \<and> fst (permitJoin_begin True (snd (permitJoin_begin True Controller_new)))
   \<and> effects example_overlapped = [Called (PermitJoin 254), Called (PermitJoin 254)]
   \<and> intervals example_overlapped =
       [(0, 200 * 1000, PermitJoinRenew), (1, 200 * 1000, PermitJoinRenew)]
   \<and> permitJoinTimer example_overlapped = Some 1
   \<and> intervals (permitJoin False example_overlapped) = [(0, 200 * 1000, PermitJoinRenew)]
   \<and> permitJoinTimer (permitJoin False example_overlapped) = None"
  by (simp add: example_overlapped_def permitJoin_awaited permitJoin_begin_def
        permitJoin_resume_def Controller_new_def adapter_call_def setInterval_def
        clearInterval_def)

subsection \<open>Start\<close>

text \<open>
  What \<^verbatim>\<open>start\<close> schedules, and what the scheduled task does in any state in which it
  runs: with the device ''0x000b57fffec6a5b2'' in the database, group 1 is found or
  created and the command \<^verbatim>\<open>genOnOff off\<close> is sent to it; without the device, the task
  throws on line 87 and changes nothing.
\<close>

lemma start_task_in_general:
  "timeouts (start coord s0) = timeouts s0 @ [(1000, StartupGroupOff)]
   \<and> (\<forall>i. Device_findByIeeeAddr ''0x000b57fffec6a5b2'' s = Some i \<longrightarrow>
        runTask StartupGroupOff s =
          (None,
           s\<lparr>groups := (if \<exists>g \<in> set (groups s). groupID g = 1 then groups s
                        else groups s @ [\<lparr>groupID = 1, members = []\<rparr>]),
             effects := effects s @ [Called (GroupCommand 1 ''genOnOff'' ''off'')]\<rparr>))
   \<and> (Device_findByIeeeAddr ''0x000b57fffec6a5b2'' s = None \<longrightarrow>
        runTask StartupGroupOff s = (Some TypeError, s))"
proof -
  have a: "timeouts (start coord s0) = timeouts s0 @ [(1000, StartupGroupOff)]"
    by (simp add: start_def setTimeout_def db_defs Let_def)
  have b: "\<forall>i. Device_findByIeeeAddr ''0x000b57fffec6a5b2'' s = Some i \<longrightarrow>
        runTask StartupGroupOff s =
          (None,
           s\<lparr>groups := (if \<exists>g \<in> set (groups s). groupID g = 1 then groups s
                        else groups s @ [\<lparr>groupID = 1, members = []\<rparr>]),
             effects := effects s @ [Called (GroupCommand 1 ''genOnOff'' ''off'')]\<rparr>)"
    using findIndex_None [of "\<lambda>x. groupID x = 1" "groups s"]
      findIndex_Some [of "\<lambda>x. groupID x = 1" "groups s"]
    by (auto simp add: getOrCreateGroup_def db_defs Let_def split: option.splits)
  have c: "Device_findByIeeeAddr ''0x000b57fffec6a5b2'' s = None \<longrightarrow>
        runTask StartupGroupOff s = (Some TypeError, s)"
    by simp
  show ?thesis using a b c by blast
qed

text \<open>
  C10. The task that \<^verbatim>\<open>start\<close> schedules is meant to get or create group 1 and to send
  \<^verbatim>\<open>genOnOff off\<close> to it, and it does not on a database without the hard-coded device.
  \<^verbatim>\<open>start\<close> on a new database schedules the task with a delay of 1000 milliseconds; when
  the task runs, the lookup of line 86 finds no device, line 87 reads the endpoint of
  the absent device and throws, and lines 88 to 92 never run: no group is created and no
  command is sent. The adapter has only been asked to start and for its coordinator.
\<close>

theorem start_timeout_without_device_sends_nothing:
  "timeouts (run [CallStart example_coordinator] Controller_new) = [(1000, StartupGroupOff)]
   \<and> Device_findByIeeeAddr ''0x000b57fffec6a5b2''
        (run [CallStart example_coordinator] Controller_new) = None
   \<and> fst (runTask StartupGroupOff (run [CallStart example_coordinator] Controller_new)) =
       Some TypeError
   \<and> groups (run [CallStart example_coordinator, TimeoutFires] Controller_new) = []
   \<and> adapterCalls (run [CallStart example_coordinator, TimeoutFires] Controller_new) =
       [AdapterStart, GetCoordinator]"
  by (simp add: start_def setTimeout_def db_defs Let_def example_defs)

end
